theory Spec2Isabelle
  imports Complex_Main "HOL-Library.List_Lexorder" "HOL-Library.Product_Lexorder"
    "HOL-Library.Multiset"
begin

section \<open>Python values\<close>

text \<open>
  A Python \<open>str\<close> is a sequence of Unicode code points, so it is modelled as a list of
  natural numbers. With \<open>HOL-Library.List_Lexorder\<close> the order on such lists is the
  lexicographic one, which is how Python compares strings. \<open>ascii\<close> embeds an ASCII
  literal; the few non-ASCII letters of the source (\<open>U+00E7\<close> and the like) are written
  as their code points.
\<close>

type_synonym pystr = "nat list"

definition ascii :: "string \<Rightarrow> pystr" where
  "ascii s = map of_char s"

text \<open>
  \<open>str.lower()\<close>. The model covers Basic Latin and the Latin-1 Supplement, the ranges
  in which the repository's keyword lists and data are written; other code points are left
  as they are. No theorem below uses any property of \<open>py_lower\<close>: it is unfolded only
  to evaluate concrete inputs.
\<close>

definition lower_char :: "nat \<Rightarrow> nat" where
  "lower_char c =
     (if (65 \<le> c \<and> c \<le> 90) \<or> (192 \<le> c \<and> c \<le> 222 \<and> c \<noteq> 215) then c + 32 else c)"

definition py_lower :: "pystr \<Rightarrow> pystr" where
  "py_lower s = map lower_char s"

text \<open>\<open>k in s\<close> for two strings: \<open>k\<close> occurs in \<open>s\<close> as a contiguous substring.\<close>

fun starts_with :: "pystr \<Rightarrow> pystr \<Rightarrow> bool" where
  "starts_with [] s = True"
| "starts_with (k # ks) [] = False"
| "starts_with (k # ks) (c # cs) = (k = c \<and> starts_with ks cs)"

fun py_in :: "pystr \<Rightarrow> pystr \<Rightarrow> bool" where
  "py_in k [] = (k = [])"
| "py_in k (c # cs) = (starts_with k (c # cs) \<or> py_in k cs)"

text \<open>
  \<open>str.split()\<close> without arguments: the maximal runs of non-whitespace characters.
  \<open>is_space\<close> lists the code points for which \<open>str.isspace\<close> holds.
\<close>

definition is_space :: "nat \<Rightarrow> bool" where
  "is_space c \<longleftrightarrow>
     (9 \<le> c \<and> c \<le> 13) \<or> (28 \<le> c \<and> c \<le> 32) \<or> c = 133 \<or> c = 160 \<or> c = 5760 \<or>
     (8192 \<le> c \<and> c \<le> 8202) \<or> c = 8232 \<or> c = 8233 \<or> c = 8239 \<or> c = 8287 \<or> c = 12288"

fun split_from :: "pystr \<Rightarrow> pystr \<Rightarrow> pystr list" where
  "split_from w [] = (if w = [] then [] else [w])"
| "split_from w (c # cs) =
     (if is_space c then (if w = [] then split_from [] cs else w # split_from [] cs)
      else split_from (w @ [c]) cs)"

definition py_split :: "pystr \<Rightarrow> pystr list" where
  "py_split s = split_from [] s"

text \<open>
  A cell of an \<open>object\<close> column that \<open>pandas.read_csv\<close> produced: a string, or the float
  \<open>nan\<close> where the CSV field was empty.
\<close>

datatype cell = Str pystr | NaN

text \<open>The exceptions that the modelled code can raise.\<close>

datatype error =
    FileNotFoundError
  | ValueError "pystr list"
  | AttributeError

section \<open>Transactions and violations\<close>

text \<open>
  One row of the transaction table that \<open>load_transactions\<close> returns. The loader
  guarantees that \<open>valor\<close> is a number and \<open>data\<close> a timestamp (rows where either
  is missing are dropped); it checks nothing about the other columns. Identifiers and
  employee names are taken to be strings; the description and the optional category may be
  missing. Amounts are floats in the source and exact rationals here: the code only
  compares them with the constants 300 and 500 and adds two of them, and for two amounts
  of at least 300 the sum exceeds 500 in either arithmetic (the total recorded for a pair
  is the float sum in the source and the exact sum here). Timestamps are integers.
\<close>

record row =
  id_transacao :: pystr
  funcionario :: pystr
  data :: int
  valor :: rat
  descricao :: cell
  categoria :: cell

text \<open>
  The table: its rows in order, and whether the optional column \<open>categoria\<close> exists
  (the \<open>categoria\<close> field of a row is meaningful only if it does).
\<close>

record dataframe =
  has_categoria :: bool
  rows :: "row list"

text \<open>
  The pieces of a formatted string (an f-string before rendering): literal text, the
  \<open>str()\<close> of a cell, a float under \<open>:.2f\<close>, \<open>:.1f\<close> or \<open>:.0f\<close>, and
  \<open>str.title()\<close> of a string.
\<close>

datatype piece =
    Lit pystr
  | Show cell
  | Fmt2f rat
  | Fmt1f rat
  | Fmt0f rat
  | Title pystr

type_synonym fstring = "piece list"

text \<open>
  The \<open>'transaction'\<close> entry of a violation: \<open>row.to_dict()\<close> for the rules that look
  at one row, and the dictionary that \<open>_check_smurfing\<close> builds for a pair of rows.
\<close>

record pair_info =
  id_1 :: pystr
  id_2 :: pystr
  p_funcionario :: pystr
  p_data :: int
  valor_total :: rat
  valor_1 :: rat
  valor_2 :: rat
  descricao_1 :: cell
  descricao_2 :: cell
  similaridade :: fstring

datatype tx_info = Row_dict row | Pair_dict pair_info

datatype vtype =
    ITEM_PROIBIDO
  | VALOR_NAO_AUTORIZADO
  | SMURFING
  | LOCAL_RESTRITO
  | CATEGORIA_SUSPEITA

record violation =
  transaction :: tx_info
  violation_type :: vtype
  severity :: int
  rule :: pystr
  reason :: fstring
  evidence :: fstring

section \<open>Rule 1: prohibited items\<close>

definition prohibited_keywords :: "pystr list" where
  "prohibited_keywords =
     [ascii ''m'' @ [225] @ ascii ''gica'', ascii ''magic'',
      ascii ''karaok'' @ [234], ascii ''karaoke'', ascii ''algema'', ascii ''handcuff'',
      ascii ''corrente'', ascii ''chain'', ascii ''fuma'' @ [231] @ ascii ''a'', ascii ''smoke'',
      ascii ''pombo'', ascii ''pigeon'',
      ascii ''stripper'', ascii ''baralho marcado'', ascii ''discoteca'', ascii ''disco'',
      ascii ''arma'', ascii ''weapon'', ascii ''gun'', ascii ''airsoft'', ascii ''espada'',
      ascii ''sword'', ascii ''katana'',
      ascii ''ninja'', ascii ''nunchaku'', ascii ''spray de pimenta'', ascii ''pepper spray'',
      ascii ''camuflagem'', ascii ''camouflage'', ascii ''armadilha'', ascii ''trap'',
      ascii ''vela artesanal'', ascii ''candle'', ascii ''startup'', ascii ''rede social'',
      ascii ''social network'',
      ascii ''beterraba'', ascii ''beet'', ascii ''bin'' @ [243] @ ascii ''culo'',
      ascii ''binocular'', ascii ''vigil'' @ [226] @ ascii ''ncia'', ascii ''surveillance'',
      ascii ''walkie talkie'', ascii ''walkie-talkie'']"

text \<open>
  The inner loop \<open>for keyword in ...: if keyword in description_lower: ...; break\<close>:
  the keyword at which the loop breaks, if any.
\<close>

fun first_hit :: "pystr list \<Rightarrow> pystr \<Rightarrow> pystr option" where
  "first_hit [] d = None"
| "first_hit (k # ks) d = (if py_in k d then Some k else first_hit ks d)"

definition prohibited_violation :: "row \<Rightarrow> pystr \<Rightarrow> violation" where
  "prohibited_violation r keyword =
     \<lparr>transaction = Row_dict r,
      violation_type = ITEM_PROIBIDO,
      severity = 9,
      rule = ascii ''Se'' @ [231, 227] @ ascii ''o 3 - Lista Negra de Itens'',
      reason = [Lit (ascii ''Compra de item proibido detectada: '' @ [34]), Lit keyword, Lit [34]],
      evidence = [Lit (ascii ''Descri'' @ [231, 227] @ ascii ''o: ''), Show (descricao r)]\<rparr>"

text \<open>
  The loop over \<open>df.iterrows()\<close>. \<open>row['descricao'].lower()\<close> raises
  \<open>AttributeError\<close> when the cell is not a string.
\<close>

fun prohibited_loop :: "row list \<Rightarrow> violation list \<Rightarrow> error + violation list" where
  "prohibited_loop [] violations = Inr violations"
| "prohibited_loop (r # rs) violations =
     (case descricao r of
        NaN \<Rightarrow> Inl AttributeError
      | Str d \<Rightarrow>
          (case first_hit prohibited_keywords (py_lower d) of
             None \<Rightarrow> prohibited_loop rs violations
           | Some keyword \<Rightarrow>
               prohibited_loop rs (violations @ [prohibited_violation r keyword])))"

definition check_prohibited_items :: "dataframe \<Rightarrow> error + violation list" where
  "check_prohibited_items df = prohibited_loop (rows df) []"

section \<open>Rule 2: unauthorized amounts\<close>

definition high_value_threshold :: rat where
  "high_value_threshold = 500"

definition unauthorized_violation :: "row \<Rightarrow> violation" where
  "unauthorized_violation r =
     \<lparr>transaction = Row_dict r,
      violation_type = VALOR_NAO_AUTORIZADO,
      severity = 7,
      rule = ascii ''Se'' @ [231, 227] @ ascii ''o 1.3 - Grandes Despesas'',
      reason = [Lit (ascii ''Valor acima de $500.0 sem evid'' @ [234]
                     @ ascii ''ncia de Purchase Order'')],
      evidence = [Lit (ascii ''Valor: $''), Fmt2f (valor r)]\<rparr>"

definition no_approval_marker :: "pystr \<Rightarrow> bool" where
  "no_approval_marker description_lower \<longleftrightarrow>
     \<not> py_in (ascii ''po'') description_lower \<and>
     \<not> py_in (ascii ''purchase order'') description_lower \<and>
     \<not> py_in (ascii ''p.o.'') description_lower"

fun unauthorized_loop :: "row list \<Rightarrow> violation list \<Rightarrow> error + violation list" where
  "unauthorized_loop [] violations = Inr violations"
| "unauthorized_loop (r # rs) violations =
     (if valor r > high_value_threshold then
        (case descricao r of
           NaN \<Rightarrow> Inl AttributeError
         | Str d \<Rightarrow>
             (if no_approval_marker (py_lower d)
              then unauthorized_loop rs (violations @ [unauthorized_violation r])
              else unauthorized_loop rs violations))
      else unauthorized_loop rs violations)"

definition check_unauthorized_amounts :: "dataframe \<Rightarrow> error + violation list" where
  "check_unauthorized_amounts df = unauthorized_loop (rows df) []"

section \<open>Rule 3: smurfing\<close>

text \<open>
  A \<open>for\<close> loop whose body may raise: the state is threaded through the iterations and
  the first exception ends the loop.
\<close>

fun for_loop :: "'a list \<Rightarrow> ('a \<Rightarrow> 's \<Rightarrow> error + 's) \<Rightarrow> 's \<Rightarrow> error + 's" where
  "for_loop [] body s = Inr s"
| "for_loop (x # xs) body s =
     (case body x s of Inl e \<Rightarrow> Inl e | Inr s' \<Rightarrow> for_loop xs body s')"

text \<open>\<open>Series.unique()\<close>: the distinct values in order of first appearance.\<close>

definition unique :: "'a list \<Rightarrow> 'a list" where
  "unique xs = fold (\<lambda>x seen. if x \<in> set seen then seen else seen @ [x]) xs []"

text \<open>
  \<open>df.sort_values(['funcionario', 'data', 'descricao'])\<close>: a stable sort under the
  lexicographic order of the three columns, with missing descriptions last.
\<close>

definition sort_values_key :: "row \<Rightarrow> pystr \<times> int \<times> bool \<times> pystr" where
  "sort_values_key r =
     (funcionario r, data r,
      (case descricao r of Str s \<Rightarrow> (False, s) | NaN \<Rightarrow> (True, [])))"

definition sort_values :: "row list \<Rightarrow> row list" where
  "sort_values rs = sort_key sort_values_key rs"

text \<open>\<open>tuple(sorted([a, b]))\<close>\<close>

definition pair_key :: "pystr \<Rightarrow> pystr \<Rightarrow> pystr list" where
  "pair_key a b = sort [a, b]"

text \<open>\<open>set(description.lower().split())\<close>\<close>

definition desc_words :: "pystr \<Rightarrow> pystr set" where
  "desc_words d = set (py_split (py_lower d))"

text \<open>
  \<open>len(a & b) / len(a | b)\<close>. The source divides two floats and compares the quotient
  with the float \<open>0.6\<close>; for sets of fewer than \<open>2^50\<close> words that comparison agrees
  with the exact one against \<open>6/10\<close>.
\<close>

definition jaccard :: "pystr set \<Rightarrow> pystr set \<Rightarrow> rat" where
  "jaccard a b = of_nat (card (a \<inter> b)) / of_nat (card (a \<union> b))"

definition smurfing_violation ::
  "pystr \<Rightarrow> int \<Rightarrow> row \<Rightarrow> row \<Rightarrow> rat \<Rightarrow> rat \<Rightarrow> violation" where
  "smurfing_violation func dt row1 row2 similarity total_sum =
     \<lparr>transaction = Pair_dict
        \<lparr>id_1 = id_transacao row1,
         id_2 = id_transacao row2,
         p_funcionario = func,
         p_data = dt,
         valor_total = total_sum,
         valor_1 = valor row1,
         valor_2 = valor row2,
         descricao_1 = descricao row1,
         descricao_2 = descricao row2,
         similaridade = [Fmt1f (similarity * 100), Lit (ascii ''%'')]\<rparr>,
      violation_type = SMURFING,
      severity = 10,
      rule = ascii ''Se'' @ [231, 227] @ ascii ''o 1.3 - Proibi'' @ [231, 227]
             @ ascii ''o de Smurfing'',
      reason = [Lit (ascii ''Poss'' @ [237] @ ascii ''vel estrutura'' @ [231, 227]
                     @ ascii ''o: duas compras similares (''),
                Fmt0f (similarity * 100),
                Lit (ascii ''% similar) no mesmo dia totalizando $''),
                Fmt2f total_sum],
      evidence = [Lit (ascii ''TX1: ''), Lit (id_transacao row1), Lit (ascii '' ($''),
                  Fmt2f (valor row1), Lit (ascii '') + TX2: ''), Lit (id_transacao row2),
                  Lit (ascii '' ($''), Fmt2f (valor row2), Lit (ascii '')'')]\<rparr>"

text \<open>
  The body of the two nested index loops, for one pair \<open>i < j\<close> of a day's rows. The
  state is the list \<open>violations\<close> and the set \<open>detected_pairs\<close>.
\<close>

type_synonym smurf_state = "violation list \<times> pystr list set"

definition examine_pair ::
  "pystr \<Rightarrow> int \<Rightarrow> row \<Rightarrow> row \<Rightarrow> smurf_state \<Rightarrow> error + smurf_state" where
  "examine_pair func dt row1 row2 st =
     (let violations = fst st; detected_pairs = snd st;
          key = pair_key (id_transacao row1) (id_transacao row2)
      in if key \<in> detected_pairs then Inr st
         else
           (case descricao row1 of
              NaN \<Rightarrow> Inl AttributeError
            | Str d1 \<Rightarrow>
                (case descricao row2 of
                   NaN \<Rightarrow> Inl AttributeError
                 | Str d2 \<Rightarrow>
                     (let desc1_words = desc_words d1; desc2_words = desc_words d2
                      in if desc1_words = {} \<or> desc2_words = {} then Inr st
                         else
                           (let similarity = jaccard desc1_words desc2_words
                            in if similarity > 6 / 10 \<and> 300 \<le> valor row1 \<and> valor row1 \<le> 500
                                  \<and> 300 \<le> valor row2 \<and> valor row2 \<le> 500
                               then
                                 (let total_sum = valor row1 + valor row2
                                  in if total_sum > 500
                                     then Inr (violations @
                                                 [smurfing_violation func dt row1 row2
                                                    similarity total_sum],
                                               insert key detected_pairs)
                                     else Inr st)
                               else Inr st)))))"

text \<open>\<open>for i in range(n): for j in range(i + 1, n): ...\<close> over a day's rows.\<close>

fun pairs_loop :: "pystr \<Rightarrow> int \<Rightarrow> row list \<Rightarrow> smurf_state \<Rightarrow> error + smurf_state" where
  "pairs_loop func dt [] st = Inr st"
| "pairs_loop func dt (row1 # rest) st =
     (case for_loop rest (examine_pair func dt row1) st of
        Inl e \<Rightarrow> Inl e
      | Inr st' \<Rightarrow> pairs_loop func dt rest st')"

definition day_body :: "pystr \<Rightarrow> row list \<Rightarrow> int \<Rightarrow> smurf_state \<Rightarrow> error + smurf_state" where
  "day_body func func_df dt st = pairs_loop func dt (filter (\<lambda>r. data r = dt) func_df) st"

definition employee_body :: "row list \<Rightarrow> pystr \<Rightarrow> smurf_state \<Rightarrow> error + smurf_state" where
  "employee_body df_sorted func st =
     (let func_df = filter (\<lambda>r. funcionario r = func) df_sorted
      in for_loop (unique (map data func_df)) (day_body func func_df) st)"

definition check_smurfing :: "dataframe \<Rightarrow> error + violation list" where
  "check_smurfing df =
     (let df_sorted = sort_values (rows df)
      in case for_loop (unique (map funcionario (rows df))) (employee_body df_sorted) ([], {}) of
           Inl e \<Rightarrow> Inl e
         | Inr st \<Rightarrow> Inr (fst st))"

section \<open>Rule 4: restricted locations\<close>

definition restricted_locations :: "pystr list" where
  "restricted_locations = [ascii ''hooters'', ascii ''hooter'']"

definition restricted_violation :: "row \<Rightarrow> pystr \<Rightarrow> violation" where
  "restricted_violation r location =
     \<lparr>transaction = Row_dict r,
      violation_type = LOCAL_RESTRITO,
      severity = 6,
      rule = ascii ''Se'' @ [231, 227] @ ascii ''o 2.1 - Locais Restritos'',
      reason = [Lit (ascii ''Refei'' @ [231, 227] @ ascii ''o em local restrito: ''),
                Title location, Lit (ascii '' (banido da lista de reembolso)'')],
      evidence = [Lit (ascii ''Descri'' @ [231, 227] @ ascii ''o: ''), Show (descricao r)]\<rparr>"

fun restricted_loop :: "row list \<Rightarrow> violation list \<Rightarrow> error + violation list" where
  "restricted_loop [] violations = Inr violations"
| "restricted_loop (r # rs) violations =
     (case descricao r of
        NaN \<Rightarrow> Inl AttributeError
      | Str d \<Rightarrow>
          (case first_hit restricted_locations (py_lower d) of
             None \<Rightarrow> restricted_loop rs violations
           | Some location \<Rightarrow>
               restricted_loop rs (violations @ [restricted_violation r location])))"

definition check_restricted_locations :: "dataframe \<Rightarrow> error + violation list" where
  "check_restricted_locations df = restricted_loop (rows df) []"

section \<open>Rule 5: suspicious categories\<close>

definition seguranca :: pystr where
  "seguranca = ascii ''Seguran'' @ [231] @ ascii ''a''"

definition suspicious_violation :: "row \<Rightarrow> violation" where
  "suspicious_violation r =
     \<lparr>transaction = Row_dict r,
      violation_type = CATEGORIA_SUSPEITA,
      severity = 7,
      rule = ascii ''Se'' @ [231, 227] @ ascii ''o 3.2 - Armamento e Defesa'',
      reason = [Lit (ascii ''Despesa categorizada como '' @ [34] @ seguranca @ [34]
                     @ ascii '' (poss'' @ [237] @ ascii ''vel armamento)'')],
      evidence = [Lit (ascii ''Descri'' @ [231, 227] @ ascii ''o: ''), Show (descricao r),
                  Lit (ascii '', Valor: $''), Fmt2f (valor r)]\<rparr>"

fun suspicious_loop :: "row list \<Rightarrow> violation list \<Rightarrow> violation list" where
  "suspicious_loop [] violations = violations"
| "suspicious_loop (r # rs) violations = suspicious_loop rs (violations @ [suspicious_violation r])"

text \<open>
  \<open>df[df['categoria'] == ...]\<close> with the string \<open>seguranca\<close> keeps the rows whose cell is that string; the
  comparison of a missing cell is false.
\<close>

definition check_suspicious_categories :: "dataframe \<Rightarrow> violation list" where
  "check_suspicious_categories df =
     (if has_categoria df
      then (let security_df = filter (\<lambda>r. categoria r = Str seguranca) (rows df)
            in suspicious_loop security_df [])
      else [])"

section \<open>Deduplication\<close>

text \<open>
  \<open>tx.get('id_transacao', tx.get('id_1', str(hash(str(tx)))))\<close>: a row dictionary has
  the key \<open>id_transacao\<close>, the dictionary of a smurfing pair has \<open>id_1\<close>, so the hash
  is never used.
\<close>

definition tx_id_of :: "violation \<Rightarrow> pystr" where
  "tx_id_of fraud =
     (case transaction fraud of Row_dict r \<Rightarrow> id_transacao r | Pair_dict p \<Rightarrow> id_1 p)"

text \<open>
  A Python \<open>dict\<close> as an association list in insertion order; \<open>d[k] = v\<close> replaces the
  value of an existing key where it stands and appends a new key at the end.
\<close>

fun dict_set :: "'k \<Rightarrow> 'v \<Rightarrow> ('k \<times> 'v) list \<Rightarrow> ('k \<times> 'v) list" where
  "dict_set k v [] = [(k, v)]"
| "dict_set k v (p # ps) = (if fst p = k then (k, v) # ps else p # dict_set k v ps)"

fun dedup_loop :: "violation list \<Rightarrow> (pystr \<times> violation) list \<Rightarrow> (pystr \<times> violation) list" where
  "dedup_loop [] fraud_dict = fraud_dict"
| "dedup_loop (fraud # frauds) fraud_dict =
     (let tx_id = tx_id_of fraud
      in case map_of fraud_dict tx_id of
           None \<Rightarrow> dedup_loop frauds (dict_set tx_id fraud fraud_dict)
         | Some kept \<Rightarrow>
             (if severity fraud > severity kept
              then dedup_loop frauds (dict_set tx_id fraud fraud_dict)
              else dedup_loop frauds fraud_dict))"

definition deduplicate_frauds :: "violation list \<Rightarrow> violation list" where
  "deduplicate_frauds frauds = map snd (dedup_loop frauds [])"

section \<open>Report\<close>

text \<open>
  The report is a text; the model keeps the values from which it is rendered: the status,
  the three counters, the per-type counts in the order they are printed and the ten most
  severe violations in the order they are printed.
\<close>

record report_body =
  total_analisadas :: nat
  violacoes_encontradas :: nat
  alta_severidade :: nat
  por_tipo :: "(vtype \<times> nat) list"
  top_10 :: "violation list"

datatype report = NENHUMA_VIOLACAO | VIOLACOES report_body

definition generate_report :: "violation list \<Rightarrow> nat \<Rightarrow> report" where
  "generate_report frauds total_rows =
     (if frauds = [] then NENHUMA_VIOLACAO
      else
        (let by_type = map (\<lambda>vtype. (vtype, filter (\<lambda>f. violation_type f = vtype) frauds))
                           (unique (map violation_type frauds));
             high_severity = filter (\<lambda>f. severity f \<ge> 8) frauds;
             sorted_frauds = sort_key (\<lambda>f. - severity f) frauds
         in VIOLACOES
              \<lparr>total_analisadas = total_rows,
               violacoes_encontradas = length frauds,
               alta_severidade = length high_severity,
               por_tipo = map (\<lambda>x. (fst x, length (snd x)))
                              (sort_key (\<lambda>x. - int (length (snd x))) by_type),
               top_10 = take 10 sorted_frauds\<rparr>))"

section \<open>Loading the transactions\<close>

text \<open>
  The input of \<open>load_transactions\<close> is the file at the given path: absent, or a table as
  \<open>pandas.read_csv\<close> returns it, with its column names and its rows. The cells of the
  columns \<open>valor\<close> and \<open>data\<close> are of a type \<open>'c\<close> that is left open.
  \<open>pandas.to_numeric\<close> and \<open>pandas.to_datetime\<close> with \<open>errors='coerce'\<close> are
  parameters: \<open>to_numeric\<close> maps a cell to a number or to nothing (\<open>NaN\<close>), and
  \<open>to_datetime\<close>, which may infer a format from the whole column, maps the column and
  a cell to a timestamp or to nothing (\<open>NaT\<close>). Infinite amounts are outside the model.
\<close>

record 'c raw_row =
  raw_id_transacao :: pystr
  raw_funcionario :: pystr
  raw_data :: 'c
  raw_valor :: 'c
  raw_descricao :: cell
  raw_categoria :: cell

record 'c csv_table =
  columns :: "pystr list"
  raw_rows :: "'c raw_row list"

definition required_columns :: "pystr list" where
  "required_columns =
     [ascii ''id_transacao'', ascii ''funcionario'', ascii ''data'', ascii ''valor'',
      ascii ''descricao'']"

text \<open>
  A row after the two conversions, and \<open>dropna(subset=['valor', 'data'])\<close>, which keeps
  a row exactly if both converted cells are present.
\<close>

definition dropna :: "('c raw_row \<times> rat option \<times> int option) list \<Rightarrow> row list" where
  "dropna converted =
     List.map_filter
       (\<lambda>(r, v, d).
          case v of
            None \<Rightarrow> None
          | Some amount \<Rightarrow>
              (case d of
                 None \<Rightarrow> None
               | Some date \<Rightarrow>
                   Some \<lparr>id_transacao = raw_id_transacao r,
                         funcionario = raw_funcionario r,
                         data = date,
                         valor = amount,
                         descricao = raw_descricao r,
                         categoria = raw_categoria r\<rparr>))
       converted"

definition load_transactions ::
  "('c \<Rightarrow> rat option) \<Rightarrow> ('c list \<Rightarrow> 'c \<Rightarrow> int option) \<Rightarrow> 'c csv_table option
     \<Rightarrow> error + dataframe" where
  "load_transactions to_numeric to_datetime file =
     (case file of
        None \<Rightarrow> Inl FileNotFoundError
      | Some df \<Rightarrow>
          (let missing_columns = filter (\<lambda>col. col \<notin> set (columns df)) required_columns
           in if missing_columns \<noteq> [] then Inl (ValueError missing_columns)
              else
                (let data_column = map raw_data (raw_rows df)
                 in Inr \<lparr>has_categoria = (ascii ''categoria'' \<in> set (columns df)),
                         rows = dropna (map (\<lambda>r. (r, to_numeric (raw_valor r),
                                                    to_datetime data_column (raw_data r)))
                                            (raw_rows df))\<rparr>)))"

section \<open>The analysis\<close>

record analysis_result =
  total_transactions :: nat
  fraudulent_transactions :: "violation list"
  total_frauds :: nat
  report :: report

definition run_checks :: "dataframe \<Rightarrow> error + violation list" where
  "run_checks df =
     (case check_prohibited_items df of
        Inl e \<Rightarrow> Inl e
      | Inr prohibited_items \<Rightarrow>
     (case check_unauthorized_amounts df of
        Inl e \<Rightarrow> Inl e
      | Inr unauthorized_amounts \<Rightarrow>
     (case check_smurfing df of
        Inl e \<Rightarrow> Inl e
      | Inr smurfing_cases \<Rightarrow>
     (case check_restricted_locations df of
        Inl e \<Rightarrow> Inl e
      | Inr restricted \<Rightarrow>
          Inr (prohibited_items @ unauthorized_amounts @ smurfing_cases @ restricted
               @ check_suspicious_categories df)))))"

definition analyze_transactions ::
  "('c \<Rightarrow> rat option) \<Rightarrow> ('c list \<Rightarrow> 'c \<Rightarrow> int option) \<Rightarrow> 'c csv_table option
     \<Rightarrow> error + analysis_result" where
  "analyze_transactions to_numeric to_datetime file =
     (case load_transactions to_numeric to_datetime file of
        Inl e \<Rightarrow> Inl e
      | Inr df \<Rightarrow>
          (case run_checks df of
             Inl e \<Rightarrow> Inl e
           | Inr fraudulent \<Rightarrow>
               (let unique_frauds = deduplicate_frauds fraudulent
                in Inr \<lparr>total_transactions = length (rows df),
                        fraudulent_transactions = unique_frauds,
                        total_frauds = length unique_frauds,
                        report = generate_report unique_frauds (length (rows df))\<rparr>)))"

section \<open>The contextual agent: judging an email\<close>

record email =
  remetente :: pystr
  destinatario :: pystr
  assunto :: pystr
  e_data :: pystr
  mensagem :: pystr

text \<open>What \<open>json.loads\<close> returns, and the truth value of such an object.\<close>

datatype json =
    JNull
  | JBool bool
  | JNum rat
  | JStr pystr
  | JArr "json list"
  | JObj "(pystr \<times> json) list"

fun truthy :: "json \<Rightarrow> bool" where
  "truthy JNull = False"
| "truthy (JBool b) = b"
| "truthy (JNum n) = (n \<noteq> 0)"
| "truthy (JStr s) = (s \<noteq> [])"
| "truthy (JArr xs) = (xs \<noteq> [])"
| "truthy (JObj kvs) = (kvs \<noteq> [])"

text \<open>\<open>d.get(key, default)\<close> on a dictionary.\<close>

definition dict_get :: "(pystr \<times> json) list \<Rightarrow> pystr \<Rightarrow> json \<Rightarrow> json" where
  "dict_get kvs k dflt = (case map_of kvs k of None \<Rightarrow> dflt | Some v \<Rightarrow> v)"

text \<open>
  One call of \<open>LLMAdapter.generate\<close>: the external service answers with a text or the
  call raises.
\<close>

datatype reply = Raises | Text pystr

text \<open>The string operations that clean the response before it is parsed.\<close>

definition py_strip :: "pystr \<Rightarrow> pystr" where
  "py_strip s = rev (dropWhile is_space (rev (dropWhile is_space s)))"

fun split_char :: "nat \<Rightarrow> pystr \<Rightarrow> pystr \<Rightarrow> pystr list" where
  "split_char sep w [] = [w]"
| "split_char sep w (c # cs) =
     (if c = sep then w # split_char sep [] cs else split_char sep (w @ [c]) cs)"

fun py_join :: "pystr \<Rightarrow> pystr list \<Rightarrow> pystr" where
  "py_join sep [] = []"
| "py_join sep [x] = x"
| "py_join sep (x # y # ys) = x @ sep @ py_join sep (y # ys)"

text \<open>\<open>s.replace(old, '')\<close> for a non-empty \<open>old\<close>, scanning from the left.\<close>

fun remove_from :: "nat \<Rightarrow> pystr \<Rightarrow> pystr \<Rightarrow> pystr" where
  "remove_from skip old [] = []"
| "remove_from skip old (c # cs) =
     (if 0 < skip then remove_from (skip - 1) old cs
      else if starts_with old (c # cs) then remove_from (length old - 1) old cs
      else c # remove_from 0 old cs)"

definition py_remove :: "pystr \<Rightarrow> pystr \<Rightarrow> pystr" where
  "py_remove old s = remove_from 0 old s"

definition fence :: pystr where
  "fence = [96, 96, 96]"

definition clean_response :: "pystr \<Rightarrow> pystr" where
  "clean_response response =
     (let cleaned = py_strip response
      in if starts_with fence cleaned
         then
           (let lines = split_char 10 [] cleaned;
                cleaned = (if length lines > 2 then py_join [10] (butlast (tl lines)) else cleaned)
            in py_strip (py_remove fence (py_remove (fence @ ascii ''json'') cleaned)))
         else cleaned)"

text \<open>
  \<open>_analyze_email_for_fraud_coordination\<close>. Building the prompt (which filters the
  table with a regular expression) is a parameter that may raise; the service is a
  parameter that gives the reply to the \<open>n\<close>-th call for a prompt; \<open>json.loads\<close> is a
  parameter that gives no result where it raises. The number of calls made so far is
  threaded through. The result is \<open>None\<close> for every exception inside the \<open>try\<close> block.
\<close>

definition analyze_email_for_fraud_coordination ::
  "(email \<Rightarrow> dataframe \<Rightarrow> error + 'p) \<Rightarrow> (nat \<Rightarrow> 'p \<Rightarrow> reply) \<Rightarrow> (pystr \<Rightarrow> json option)
     \<Rightarrow> email \<Rightarrow> dataframe \<Rightarrow> nat \<Rightarrow> (error + json option) \<times> nat" where
  "analyze_email_for_fraud_coordination build_prompt llm json_loads em df calls =
     (case build_prompt em df of
        Inl e \<Rightarrow> (Inl e, calls)
      | Inr user_prompt \<Rightarrow>
          (case llm calls user_prompt of
             Raises \<Rightarrow> (Inr None, calls + 1)
           | Text response \<Rightarrow>
               (case json_loads (clean_response response) of
                  None \<Rightarrow> (Inr None, calls + 1)
                | Some analysis \<Rightarrow> (Inr (Some analysis), calls + 1))))"

definition suspicious_keywords :: "pystr list" where
  "suspicious_keywords =
     [ascii ''compra'', ascii ''purchase'', ascii ''aprova'' @ [231, 227] @ ascii ''o'',
      ascii ''approval'', ascii ''autoriza'' @ [231, 227] @ ascii ''o'', ascii ''authorization'',
      ascii ''$'', ascii ''valor'', ascii ''amount'', ascii ''despesa'', ascii ''expense'',
      ascii ''reembolso'', ascii ''reimbursement'',
      ascii ''dividir'', ascii ''split'', ascii ''juntos'', ascii ''together'',
      ascii ''combinar'', ascii ''combine'']"

record contextual_fraud =
  c_email :: email
  c_analysis :: json
  c_violation_type :: pystr
  c_severity :: json
  c_evidence :: json
  c_reason :: json

text \<open>
  The loop body of \<open>_detect_coordinated_fraud\<close>: every exception of the analysis, and
  the \<open>AttributeError\<close> of \<open>.get\<close> on a result that is not a dictionary, is caught
  and the loop continues with the next email.
\<close>

definition coordinated_body ::
  "(email \<Rightarrow> dataframe \<Rightarrow> error + 'p) \<Rightarrow> (nat \<Rightarrow> 'p \<Rightarrow> reply) \<Rightarrow> (pystr \<Rightarrow> json option)
     \<Rightarrow> dataframe \<Rightarrow> email \<Rightarrow> contextual_fraud list \<times> nat \<Rightarrow> contextual_fraud list \<times> nat" where
  "coordinated_body build_prompt llm json_loads df em st =
     (let frauds = fst st;
          res = analyze_email_for_fraud_coordination build_prompt llm json_loads em df (snd st);
          calls = snd res
      in case fst res of
           Inl e \<Rightarrow> (frauds, calls)
         | Inr None \<Rightarrow> (frauds, calls)
         | Inr (Some analysis) \<Rightarrow>
             (if truthy analysis then
                (case analysis of
                   JObj kvs \<Rightarrow>
                     (if truthy (dict_get kvs (ascii ''is_fraud'') (JBool False))
                      then (frauds @
                              [\<lparr>c_email = em,
                                c_analysis = analysis,
                                c_violation_type = ascii ''FRAUDE_COORDENADA'',
                                c_severity = dict_get kvs (ascii ''severity'') (JNum 5),
                                c_evidence = dict_get kvs (ascii ''evidence'') (JStr []),
                                c_reason = dict_get kvs (ascii ''reason'') (JStr [])\<rparr>],
                            calls)
                      else (frauds, calls))
                 | _ \<Rightarrow> (frauds, calls))
              else (frauds, calls)))"

definition detect_coordinated_fraud ::
  "(email \<Rightarrow> dataframe \<Rightarrow> error + 'p) \<Rightarrow> (nat \<Rightarrow> 'p \<Rightarrow> reply) \<Rightarrow> (pystr \<Rightarrow> json option)
     \<Rightarrow> email list \<Rightarrow> dataframe \<Rightarrow> nat \<Rightarrow> contextual_fraud list \<times> nat" where
  "detect_coordinated_fraud build_prompt llm json_loads emails df calls =
     (let suspicious_emails =
            take 20 (filter (\<lambda>em. list_ex (\<lambda>keyword. py_in keyword (py_lower (mensagem em)))
                                          suspicious_keywords) emails)
      in fold (coordinated_body build_prompt llm json_loads df) suspicious_emails ([], calls))"

section \<open>The conspiracy agent: judging an email with retries\<close>

text \<open>
  \<open>_analyze_single_email\<close> of the conspiracy agent asks the same service and parses
  the reply in the same way, but inside \<open>for attempt in range(max_retries)\<close>: a reply
  that does not parse, a call that raises and a result without the required keys lead to
  the next attempt, and after the last one to the fallback judgment. The cleaning differs
  slightly from the contextual agent's.
\<close>

definition clean_response_strict :: "pystr \<Rightarrow> pystr" where
  "clean_response_strict response_text =
     (let cleaned_response = py_strip response_text
      in if starts_with fence cleaned_response
         then py_join [10] (butlast (tl (split_char 10 [] cleaned_response)))
         else cleaned_response)"

definition required_keys :: "pystr list" where
  "required_keys = [ascii ''is_suspicious'', ascii ''severity'', ascii ''reasoning'']"

text \<open>
  \<open>key in analysis\<close>: defined for a dictionary, a list and a string; for the other
  values it raises \<open>TypeError\<close> (no result).
\<close>

fun has_key :: "json \<Rightarrow> pystr \<Rightarrow> bool option" where
  "has_key (JObj kvs) k = Some (k \<in> fst ` set kvs)"
| "has_key (JArr xs) k = Some (JStr k \<in> set xs)"
| "has_key (JStr s) k = Some (py_in k s)"
| "has_key _ k = None"

fun has_all_keys :: "json \<Rightarrow> pystr list \<Rightarrow> bool option" where
  "has_all_keys analysis [] = Some True"
| "has_all_keys analysis (k # ks) =
     (case has_key analysis k of
        None \<Rightarrow> None
      | Some False \<Rightarrow> Some False
      | Some True \<Rightarrow> has_all_keys analysis ks)"

definition max_retries :: nat where
  "max_retries = 2"

fun attempts_loop ::
  "(nat \<Rightarrow> 'p \<Rightarrow> reply) \<Rightarrow> (pystr \<Rightarrow> json option) \<Rightarrow> 'p \<Rightarrow> nat list \<Rightarrow> nat
     \<Rightarrow> json option \<times> nat" where
  "attempts_loop llm json_loads user_prompt [] calls = (None, calls)"
| "attempts_loop llm json_loads user_prompt (attempt # rest) calls =
     (let failed = (if attempt = max_retries - 1 then (None, calls + 1)
                    else attempts_loop llm json_loads user_prompt rest (calls + 1))
      in case llm calls user_prompt of
           Raises \<Rightarrow> failed
         | Text response_text \<Rightarrow>
             (case json_loads (clean_response_strict response_text) of
                None \<Rightarrow> failed
              | Some analysis \<Rightarrow>
                  (case has_all_keys analysis required_keys of
                     None \<Rightarrow> failed
                   | Some True \<Rightarrow> (Some analysis, calls + 1)
                   | Some False \<Rightarrow>
                       attempts_loop llm json_loads user_prompt rest (calls + 1))))"

definition fallback_analysis :: json where
  "fallback_analysis =
     JObj [(ascii ''is_suspicious'', JBool False), (ascii ''severity'', JNum 0),
           (ascii ''reasoning'',
            JStr (ascii ''Erro ao processar an'' @ [225] @ ascii ''lise - resposta inv''
                  @ [225] @ ascii ''lida do LLM'')),
           (ascii ''evidence_quotes'', JArr [])]"

definition analyze_single_email ::
  "(email \<Rightarrow> 'p) \<Rightarrow> (nat \<Rightarrow> 'p \<Rightarrow> reply) \<Rightarrow> (pystr \<Rightarrow> json option) \<Rightarrow> email \<Rightarrow> nat
     \<Rightarrow> json \<times> nat" where
  "analyze_single_email build_prompt llm json_loads em calls =
     (let res = attempts_loop llm json_loads (build_prompt em) [0 ..< max_retries] calls
      in case fst res of
           Some analysis \<Rightarrow> (analysis, snd res)
         | None \<Rightarrow> (fallback_analysis, snd res))"

section \<open>Notions of the specification\<close>

text \<open>
  The following three definitions follow the words of the specification, to be compared
  with what the code computes. The identity key of a violation: "the transaction's own id
  for single-transaction violations; a sorted pair of ids for smurfing".
\<close>

definition spec_identity_key :: "violation \<Rightarrow> pystr list" where
  "spec_identity_key v =
     (case transaction v of
        Row_dict r \<Rightarrow> [id_transacao r]
      | Pair_dict p \<Rightarrow> pair_key (id_1 p) (id_2 p))"



section \<open>Auxiliary functions for the proofs\<close>

text \<open>
  What one key of \<open>fraud_dict\<close> holds after the violations \<open>fs\<close> with that key
  have been seen, starting from \<open>kept\<close>.
\<close>

fun keep_best :: "violation option \<Rightarrow> violation list \<Rightarrow> violation option" where
  "keep_best kept [] = kept"
| "keep_best None (f # fs) = keep_best (Some f) fs"
| "keep_best (Some k) (f # fs) =
     keep_best (if severity f > severity k then Some f else Some k) fs"





section \<open>Sample inputs\<close>

text \<open>
  Four transactions on which the rules are evaluated below.
\<close>

definition tx_gun :: row where
  "tx_gun = \<lparr>id_transacao = ascii ''T1'', funcionario = ascii ''Dwight'', data = 1, valor = 120,
              descricao = Str (ascii ''Magic gun''), categoria = Str seguranca\<rparr>"

definition tx_paper :: row where
  "tx_paper = \<lparr>id_transacao = ascii ''T2'', funcionario = ascii ''Jim'', data = 1, valor = 80,
                descricao = Str (ascii ''Paper''), categoria = Str (ascii ''Security'')\<rparr>"

definition tx_laptop :: row where
  "tx_laptop = \<lparr>id_transacao = ascii ''T3'', funcionario = ascii ''Jim'', data = 2, valor = 900,
                 descricao = Str (ascii ''Laptop''), categoria = Str seguranca\<rparr>"

definition tx_server :: row where
  "tx_server = \<lparr>id_transacao = ascii ''T4'', funcionario = ascii ''Jim'', data = 2, valor = 900,
                 descricao = Str (ascii ''Server PO 77''), categoria = NaN\<rparr>"

definition sample_table :: dataframe where
  "sample_table = \<lparr>has_categoria = True, rows = [tx_gun, tx_paper, tx_laptop, tx_server]\<rparr>"

text \<open>
  Three transactions of one employee on one day with the same description up to case,
  and the three smurfing violations they give rise to.
\<close>

definition tx_ink1 :: row where
  "tx_ink1 = \<lparr>id_transacao = ascii ''S1'', funcionario = ascii ''Ryan'', data = 3, valor = 350,
               descricao = Str (ascii ''ink''), categoria = NaN\<rparr>"

definition tx_ink2 :: row where
  "tx_ink2 = \<lparr>id_transacao = ascii ''S2'', funcionario = ascii ''Ryan'', data = 3, valor = 400,
               descricao = Str (ascii ''Ink''), categoria = NaN\<rparr>"

definition tx_ink3 :: row where
  "tx_ink3 = \<lparr>id_transacao = ascii ''S3'', funcionario = ascii ''Ryan'', data = 3, valor = 350,
               descricao = Str (ascii ''iNK''), categoria = NaN\<rparr>"

definition smurf_table :: dataframe where
  "smurf_table = \<lparr>has_categoria = True, rows = [tx_ink1, tx_ink2, tx_ink3]\<rparr>"

definition smurf_23 :: violation where
  "smurf_23 = smurfing_violation (ascii ''Ryan'') 3 tx_ink2 tx_ink3 1 750"

definition smurf_21 :: violation where
  "smurf_21 = smurfing_violation (ascii ''Ryan'') 3 tx_ink2 tx_ink1 1 750"

definition smurf_31 :: violation where
  "smurf_31 = smurfing_violation (ascii ''Ryan'') 3 tx_ink3 tx_ink1 1 700"

text \<open>
  CSV tables whose \<open>valor\<close> and \<open>data\<close> cells are strings, with a conversion that
  accepts the non-empty strings of decimal digits.
\<close>

definition digits_value :: "pystr \<Rightarrow> nat option" where
  "digits_value s =
     (if s \<noteq> [] \<and> list_all (\<lambda>c. 48 \<le> c \<and> c \<le> 57) s
      then Some (foldl (\<lambda>acc c. 10 * acc + (c - 48)) 0 s)
      else None)"

definition sample_to_numeric :: "pystr \<Rightarrow> rat option" where
  "sample_to_numeric s = map_option of_nat (digits_value s)"

definition sample_to_datetime :: "pystr list \<Rightarrow> pystr \<Rightarrow> int option" where
  "sample_to_datetime col s = map_option int (digits_value s)"

definition raw_ok :: "pystr raw_row" where
  "raw_ok = \<lparr>raw_id_transacao = ascii ''R1'', raw_funcionario = ascii ''Pam'',
             raw_data = ascii ''5'', raw_valor = ascii ''120'',
             raw_descricao = Str (ascii ''Paper''), raw_categoria = NaN\<rparr>"

definition raw_bad_valor :: "pystr raw_row" where
  "raw_bad_valor = \<lparr>raw_id_transacao = ascii ''R2'', raw_funcionario = ascii ''Pam'',
             raw_data = ascii ''5'', raw_valor = ascii ''n/a'',
             raw_descricao = Str (ascii ''Pens''), raw_categoria = NaN\<rparr>"

definition raw_bad_data :: "pystr raw_row" where
  "raw_bad_data = \<lparr>raw_id_transacao = ascii ''R3'', raw_funcionario = ascii ''Pam'',
             raw_data = ascii ''soon'', raw_valor = ascii ''75'',
             raw_descricao = Str (ascii ''Clips''), raw_categoria = NaN\<rparr>"

definition raw_no_descricao :: "pystr raw_row" where
  "raw_no_descricao = \<lparr>raw_id_transacao = ascii ''R4'', raw_funcionario = ascii ''Pam'',
             raw_data = ascii ''6'', raw_valor = ascii ''40'',
             raw_descricao = NaN, raw_categoria = NaN\<rparr>"

definition csv_full :: "pystr csv_table" where
  "csv_full = \<lparr>columns = required_columns,
               raw_rows = [raw_ok, raw_bad_valor, raw_bad_data, raw_ok]\<rparr>"

definition csv_no_descricao_column :: "pystr csv_table" where
  "csv_no_descricao_column =
     \<lparr>columns = [ascii ''id_transacao'', ascii ''funcionario'', ascii ''data'', ascii ''valor''],
      raw_rows = [raw_ok]\<rparr>"

definition csv_empty_descricao :: "pystr csv_table" where
  "csv_empty_descricao = \<lparr>columns = required_columns, raw_rows = [raw_ok, raw_no_descricao]\<rparr>"

definition tx_pam :: row where
  "tx_pam = \<lparr>id_transacao = ascii ''R1'', funcionario = ascii ''Pam'', data = 5, valor = 120,
              descricao = Str (ascii ''Paper''), categoria = NaN\<rparr>"

definition tx_pam_nan :: row where
  "tx_pam_nan = \<lparr>id_transacao = ascii ''R4'', funcionario = ascii ''Pam'', data = 6, valor = 40,
              descricao = NaN, categoria = NaN\<rparr>"

text \<open>
  An email, and a service whose first reply is not JSON and whose later replies are a
  well-formed judgment.
\<close>

definition sample_email :: email where
  "sample_email = \<lparr>remetente = ascii ''a@dm.com'', destinatario = ascii ''b@dm.com'',
                    assunto = ascii ''plan'', e_data = ascii ''2024-01-05'',
                    mensagem = ascii ''Split it''\<rparr>"

definition fraud_json_text :: pystr where
  "fraud_json_text = [123, 34] @ ascii ''is_fraud'' @ [34] @ ascii '': true}''"

definition suspicious_json_text :: pystr where
  "suspicious_json_text =
     [123, 34] @ ascii ''is_suspicious'' @ [34] @ ascii '': true, '' @ [34] @ ascii ''severity''
     @ [34] @ ascii '': 8, '' @ [34] @ ascii ''reasoning'' @ [34] @ ascii '': '' @ [34]
     @ ascii ''x'' @ [34, 125]"

definition sample_json_loads :: "pystr \<Rightarrow> json option" where
  "sample_json_loads s =
     (if s = fraud_json_text then Some (JObj [(ascii ''is_fraud'', JBool True)])
      else if s = suspicious_json_text
      then Some (JObj [(ascii ''is_suspicious'', JBool True), (ascii ''severity'', JNum 8),
                       (ascii ''reasoning'', JStr (ascii ''x''))])
      else None)"

definition flaky_llm :: "pystr \<Rightarrow> nat \<Rightarrow> unit \<Rightarrow> reply" where
  "flaky_llm good n p = (if n = 0 then Text (ascii ''Sure:'') else Text good)"

definition sample_prompt :: "email \<Rightarrow> dataframe \<Rightarrow> error + unit" where
  "sample_prompt em df = Inr ()"

section \<open>Properties of the string functions\<close>

lemma starts_with_iff: "starts_with k s \<longleftrightarrow> (\<exists>q. s = k @ q)"
  by (induction k s rule: starts_with.induct) auto

text \<open>\<open>py_in\<close> decides the substring relation.\<close>

lemma py_in_iff: "py_in k s \<longleftrightarrow> (\<exists>p q. s = p @ k @ q)"
proof (induction s)
  case Nil
  then show ?case by auto
next
  case (Cons c cs)
  show ?case
  proof
    assume "py_in k (c # cs)"
    then consider "starts_with k (c # cs)" | "py_in k cs" by auto
    then show "\<exists>p q. c # cs = p @ k @ q"
    proof cases
      case 1
      then obtain q where "c # cs = k @ q" by (auto simp: starts_with_iff)
      then have "c # cs = [] @ k @ q" by simp
      then show ?thesis by blast
    next
      case 2
      with Cons.IH obtain p q where "cs = p @ k @ q" by blast
      then have "c # cs = (c # p) @ k @ q" by simp
      then show ?thesis by blast
    qed
  next
    assume "\<exists>p q. c # cs = p @ k @ q"
    then obtain p q where pq: "c # cs = p @ k @ q" by blast
    show "py_in k (c # cs)"
    proof (cases p)
      case Nil
      with pq have "starts_with k (c # cs)" by (auto simp: starts_with_iff)
      then show ?thesis by simp
    next
      case (Cons a p')
      with pq have "cs = p' @ k @ q" by simp
      with Cons.IH have "py_in k cs" by blast
      then show ?thesis by simp
    qed
  qed
qed


lemmas sample_defs = sample_table_def tx_gun_def tx_paper_def tx_laptop_def tx_server_def

section \<open>The key and the severity of each kind of violation\<close>

lemma tx_id_of_simps:
  "tx_id_of (prohibited_violation r k) = id_transacao r"
  "tx_id_of (unauthorized_violation r) = id_transacao r"
  "tx_id_of (restricted_violation r k) = id_transacao r"
  "tx_id_of (suspicious_violation r) = id_transacao r"
  "tx_id_of (smurfing_violation func dt row1 row2 sim tot) = id_transacao row1"
  by (simp_all add: tx_id_of_def prohibited_violation_def unauthorized_violation_def
        restricted_violation_def suspicious_violation_def smurfing_violation_def)

lemma severity_simps:
  "severity (prohibited_violation r k) = 9"
  "severity (unauthorized_violation r) = 7"
  "severity (restricted_violation r k) = 6"
  "severity (suspicious_violation r) = 7"
  "severity (smurfing_violation func dt row1 row2 sim tot) = 10"
  by (simp_all add: prohibited_violation_def unauthorized_violation_def
        restricted_violation_def suspicious_violation_def smurfing_violation_def)


section \<open>Properties of the prohibited-item check\<close>




section \<open>Properties of the unauthorized-amount check\<close>

lemma unauthorized_loop_filter:
  assumes "\<forall>r \<in> set rs. valor r > 500 \<longrightarrow> (\<exists>d. descricao r = Str d)"
  shows "unauthorized_loop rs vs =
         Inr (vs @ map unauthorized_violation
                (filter (\<lambda>r. valor r > 500 \<and>
                               (\<exists>d. descricao r = Str d \<and> no_approval_marker (py_lower d))) rs))"
  using assms
proof (induction rs arbitrary: vs)
  case Nil
  then show ?case by simp
next
  case (Cons r rs)
  from Cons.prems have rest: "\<forall>r \<in> set rs. valor r > 500 \<longrightarrow> (\<exists>d. descricao r = Str d)"
    by simp
  show ?case
  proof (cases "valor r > 500")
    case True
    with Cons.prems obtain d where d: "descricao r = Str d" by auto
    with True show ?thesis
      by (simp add: high_value_threshold_def Cons.IH [OF rest])
  next
    case False
    then show ?thesis
      by (simp add: high_value_threshold_def Cons.IH [OF rest])
  qed
qed

text \<open>
  C5. On a table in which every row with an amount above 500 has a string description,
  \<open>_check_unauthorized_amounts\<close> returns, in row order, exactly one violation for every
  row whose amount is strictly greater than 500 and whose lower-cased description
  contains none of \<open>po\<close>, \<open>purchase order\<close>, \<open>p.o.\<close> as a substring, and nothing for
  a row with an amount of at most 500 or with one of the markers. The violation refers
  to that row, has type \<open>VALOR_NAO_AUTORIZADO\<close> and severity 7.
\<close>

theorem unauthorized_amount_once_per_row:
  assumes "\<forall>r \<in> set (rows df). valor r > 500 \<longrightarrow> (\<exists>d. descricao r = Str d)"
  shows "check_unauthorized_amounts df =
           Inr (map unauthorized_violation
                  (filter (\<lambda>r. valor r > 500 \<and>
                                 (\<exists>d. descricao r = Str d
                                    \<and> \<not> (\<exists>p q. py_lower d = p @ ascii ''po'' @ q)
                                    \<and> \<not> (\<exists>p q. py_lower d = p @ ascii ''purchase order'' @ q)
                                    \<and> \<not> (\<exists>p q. py_lower d = p @ ascii ''p.o.'' @ q)))
                     (rows df)))
         \<and> (\<forall>r. transaction (unauthorized_violation r) = Row_dict r
              \<and> violation_type (unauthorized_violation r) = VALOR_NAO_AUTORIZADO
              \<and> severity (unauthorized_violation r) = 7)"
  using unauthorized_loop_filter [OF assms, of "[]"]
  by (simp add: check_unauthorized_amounts_def no_approval_marker_def py_in_iff
        unauthorized_violation_def)

text \<open>
  In the sample table two rows have the amount 900; the description of one of them
  contains \<open>PO\<close>, so only the other is reported.
\<close>

theorem unauthorized_amount_once_per_row_witness:
  "check_unauthorized_amounts sample_table = Inr [unauthorized_violation tx_laptop]"
proof -
  have h: "\<forall>r \<in> set (rows sample_table). valor r > 500 \<longrightarrow> (\<exists>d. descricao r = Str d)"
    by (simp add: sample_defs)
  show ?thesis
    using unauthorized_amount_once_per_row [OF h, unfolded py_in_iff [symmetric]]
    by (simp add: sample_defs ascii_def py_lower_def lower_char_def)
qed

section \<open>Properties of the suspicious-category check\<close>

lemma suspicious_loop_map: "suspicious_loop rs vs = vs @ map suspicious_violation rs"
  by (induction rs arbitrary: vs) simp_all

text \<open>
  C7. \<open>_check_suspicious_categories\<close> returns, in row order, exactly one violation of
  type \<open>CATEGORIA_SUSPEITA\<close> and severity 7 for every row whose category cell is the
  string \<open>seguranca\<close>, "Seguranca" written with a c-cedilla (the sentinel; "Security" is its English rendering, not a second
  value), and nothing for a row whose category is missing, empty or any other string.
  When the table has no column \<open>categoria\<close> it returns nothing.
\<close>

theorem suspicious_category_once_per_row:
  "check_suspicious_categories df =
     (if has_categoria df
      then map suspicious_violation
             (filter (\<lambda>r. categoria r = Str (ascii ''Seguran'' @ [231] @ ascii ''a'')) (rows df))
      else [])
   \<and> (\<forall>r. transaction (suspicious_violation r) = Row_dict r
        \<and> violation_type (suspicious_violation r) = CATEGORIA_SUSPEITA
        \<and> severity (suspicious_violation r) = 7)"
  by (simp add: check_suspicious_categories_def suspicious_loop_map seguranca_def
        suspicious_violation_def)

text \<open>
  The categories of the sample table are the sentinel (twice), another string and a
  missing cell: the two rows with the sentinel are reported, and none without the column.
\<close>

theorem suspicious_category_once_per_row_witness:
  "check_suspicious_categories sample_table =
     [suspicious_violation tx_gun, suspicious_violation tx_laptop]
   \<and> check_suspicious_categories (sample_table\<lparr>has_categoria := False\<rparr>) = []"
  using suspicious_category_once_per_row [of sample_table]
    suspicious_category_once_per_row [of "sample_table\<lparr>has_categoria := False\<rparr>"]
  by (simp add: sample_defs seguranca_def ascii_def)

section \<open>The checks on the sample table\<close>

lemma sample_prohibited:
  "check_prohibited_items sample_table = Inr [prohibited_violation tx_gun (ascii ''magic'')]"
  by (simp add: check_prohibited_items_def sample_defs prohibited_keywords_def
        ascii_def py_lower_def lower_char_def)

lemma sample_unauthorized:
  "check_unauthorized_amounts sample_table = Inr [unauthorized_violation tx_laptop]"
  by (simp add: check_unauthorized_amounts_def sample_defs high_value_threshold_def
        no_approval_marker_def ascii_def py_lower_def lower_char_def)

lemma sample_smurfing: "check_smurfing sample_table = Inr []"
  by (simp add: check_smurfing_def sample_defs sort_values_def sort_values_key_def unique_def
        employee_body_def day_body_def examine_pair_def pair_key_def desc_words_def
        py_split_def py_lower_def lower_char_def is_space_def jaccard_def ascii_def Let_def)

lemma sample_restricted: "check_restricted_locations sample_table = Inr []"
  by (simp add: check_restricted_locations_def sample_defs restricted_locations_def
        ascii_def py_lower_def lower_char_def)

lemma sample_suspicious:
  "check_suspicious_categories sample_table =
     [suspicious_violation tx_gun, suspicious_violation tx_laptop]"
  by (simp add: check_suspicious_categories_def sample_defs seguranca_def ascii_def)

lemma sample_run_checks:
  "run_checks sample_table =
     Inr [prohibited_violation tx_gun (ascii ''magic''), unauthorized_violation tx_laptop,
          suspicious_violation tx_gun, suspicious_violation tx_laptop]"
  by (simp add: run_checks_def sample_prohibited sample_unauthorized sample_smurfing
        sample_restricted sample_suspicious)

lemma sample_ids:
  "id_transacao tx_gun = ascii ''T1''" "id_transacao tx_paper = ascii ''T2''"
  "id_transacao tx_laptop = ascii ''T3''" "id_transacao tx_server = ascii ''T4''"
  by (simp_all add: sample_defs)

lemma sample_dedup:
  "deduplicate_frauds
     [prohibited_violation tx_gun (ascii ''magic''), unauthorized_violation tx_laptop,
      suspicious_violation tx_gun, suspicious_violation tx_laptop] =
     [prohibited_violation tx_gun (ascii ''magic''), unauthorized_violation tx_laptop]"
  by (simp add: deduplicate_frauds_def Let_def tx_id_of_simps severity_simps sample_ids
        ascii_def)

section \<open>Properties of the deduplication\<close>

lemma map_of_dict_set: "map_of (dict_set k v d) = (map_of d)(k \<mapsto> v)"
  by (induction d) (auto simp: fun_eq_iff)

lemma keys_dict_set:
  "map fst (dict_set k v d) = (if k \<in> fst ` set d then map fst d else map fst d @ [k])"
  by (induction d) auto

lemma set_dict_set: "set (dict_set k v d) \<subseteq> insert (k, v) (set d)"
  by (induction d) auto

lemma map_of_None_iff: "map_of d k = None \<longleftrightarrow> k \<notin> fst ` set d"
  by (simp add: map_of_eq_None_iff)

lemma dedup_loop_lookup:
  "map_of (dedup_loop fs d) k = keep_best (map_of d k) (filter (\<lambda>f. tx_id_of f = k) fs)"
proof (induction fs arbitrary: d)
  case Nil
  then show ?case by simp
next
  case (Cons f fs)
  show ?case
  proof (cases "map_of d (tx_id_of f)")
    case None
    then show ?thesis by (auto simp add: Cons.IH map_of_dict_set)
  next
    case (Some kept)
    then show ?thesis by (auto simp add: Cons.IH map_of_dict_set)
  qed
qed

lemma dedup_loop_keys_distinct:
  "distinct (map fst d) \<Longrightarrow> distinct (map fst (dedup_loop fs d))"
proof (induction fs arbitrary: d)
  case Nil
  then show ?case by simp
next
  case (Cons f fs)
  have "distinct (map fst (dict_set (tx_id_of f) f d))"
    using Cons.prems by (simp add: keys_dict_set)
  with Cons show ?case
    by (simp add: Let_def split: option.split)
qed

lemma dedup_loop_keys_set:
  "set (map fst (dedup_loop fs d)) = fst ` set d \<union> tx_id_of ` set fs"
proof (induction fs arbitrary: d)
  case Nil
  then show ?case by simp
next
  case (Cons f fs)
  have a: "fst ` set (dict_set (tx_id_of f) f d) = insert (tx_id_of f) (fst ` set d)"
    using keys_dict_set [of "tx_id_of f" f d]
    by (metis (no_types, lifting) insert_absorb list.set_map set_append set_simps
        Un_insert_right sup_bot.right_neutral list.simps(15) empty_set)
  show ?case
  proof (cases "map_of d (tx_id_of f)")
    case None
    then show ?thesis using Cons.IH [of "dict_set (tx_id_of f) f d"] a by auto
  next
    case (Some kept)
    then have "tx_id_of f \<in> fst ` set d"
      by (metis map_of_None_iff option.distinct(1))
    then show ?thesis
      using Some Cons.IH [of "dict_set (tx_id_of f) f d"] Cons.IH [of d] a by auto
  qed
qed

lemma dedup_loop_key_of:
  "\<forall>(k, v) \<in> set d. tx_id_of v = k \<Longrightarrow> \<forall>(k, v) \<in> set (dedup_loop fs d). tx_id_of v = k"
proof (induction fs arbitrary: d)
  case Nil
  then show ?case by simp
next
  case (Cons f fs)
  have "\<forall>(k, v) \<in> set (dict_set (tx_id_of f) f d). tx_id_of v = k"
    using Cons.prems set_dict_set [of "tx_id_of f" f d] by auto
  with Cons show ?case
    by (simp add: Let_def split: option.split)
qed

lemma keep_best_Some:
  "keep_best (Some k) fs = Some v \<Longrightarrow>
     (v = k \<and> (\<forall>f \<in> set fs. severity f \<le> severity k)) \<or>
     (\<exists>pre post. fs = pre @ v # post \<and> severity k < severity v
        \<and> (\<forall>f \<in> set pre. severity f < severity v)
        \<and> (\<forall>f \<in> set post. severity f \<le> severity v))"
proof (induction fs arbitrary: k)
  case Nil
  then show ?case by simp
next
  case (Cons f fs)
  show ?case
  proof (cases "severity f > severity k")
    case True
    with Cons.prems have "keep_best (Some f) fs = Some v" by simp
    from Cons.IH [OF this] show ?thesis
    proof
      assume "v = f \<and> (\<forall>g \<in> set fs. severity g \<le> severity f)"
      then have "f # fs = [] @ v # fs \<and> severity k < severity v
        \<and> (\<forall>g \<in> set []. severity g < severity v) \<and> (\<forall>g \<in> set fs. severity g \<le> severity v)"
        using True by simp
      then show ?thesis by blast
    next
      assume "\<exists>pre post. fs = pre @ v # post \<and> severity f < severity v
        \<and> (\<forall>g \<in> set pre. severity g < severity v) \<and> (\<forall>g \<in> set post. severity g \<le> severity v)"
      then obtain pre post where pp: "fs = pre @ v # post" "severity f < severity v"
        "\<forall>g \<in> set pre. severity g < severity v" "\<forall>g \<in> set post. severity g \<le> severity v"
        by blast
      then have "f # fs = (f # pre) @ v # post \<and> severity k < severity v
        \<and> (\<forall>g \<in> set (f # pre). severity g < severity v)
        \<and> (\<forall>g \<in> set post. severity g \<le> severity v)"
        using True by auto
      then show ?thesis by blast
    qed
  next
    case False
    with Cons.prems have "keep_best (Some k) fs = Some v" by simp
    from Cons.IH [OF this] show ?thesis
    proof
      assume "v = k \<and> (\<forall>g \<in> set fs. severity g \<le> severity k)"
      then show ?thesis using False by auto
    next
      assume "\<exists>pre post. fs = pre @ v # post \<and> severity k < severity v
        \<and> (\<forall>g \<in> set pre. severity g < severity v) \<and> (\<forall>g \<in> set post. severity g \<le> severity v)"
      then obtain pre post where pp: "fs = pre @ v # post" "severity k < severity v"
        "\<forall>g \<in> set pre. severity g < severity v" "\<forall>g \<in> set post. severity g \<le> severity v"
        by blast
      then have "f # fs = (f # pre) @ v # post \<and> severity k < severity v
        \<and> (\<forall>g \<in> set (f # pre). severity g < severity v)
        \<and> (\<forall>g \<in> set post. severity g \<le> severity v)"
        using False by auto
      then show ?thesis by blast
    qed
  qed
qed

lemma keep_best_None:
  assumes "keep_best None fs = Some v"
  shows "\<exists>pre post. fs = pre @ v # post
           \<and> (\<forall>f \<in> set pre. severity f < severity v)
           \<and> (\<forall>f \<in> set post. severity f \<le> severity v)"
proof (cases fs)
  case Nil
  with assms show ?thesis by simp
next
  case (Cons f fs')
  with assms have "keep_best (Some f) fs' = Some v" by simp
  from keep_best_Some [OF this] show ?thesis
  proof
    assume "v = f \<and> (\<forall>g \<in> set fs'. severity g \<le> severity f)"
    then have "fs = [] @ v # fs' \<and> (\<forall>g \<in> set []. severity g < severity v)
        \<and> (\<forall>g \<in> set fs'. severity g \<le> severity v)"
      using Cons by simp
    then show ?thesis by blast
  next
    assume "\<exists>pre post. fs' = pre @ v # post \<and> severity f < severity v
        \<and> (\<forall>g \<in> set pre. severity g < severity v) \<and> (\<forall>g \<in> set post. severity g \<le> severity v)"
    then obtain pre post where pp: "fs' = pre @ v # post" "severity f < severity v"
        "\<forall>g \<in> set pre. severity g < severity v" "\<forall>g \<in> set post. severity g \<le> severity v"
      by blast
    then have "fs = (f # pre) @ v # post \<and> (\<forall>g \<in> set (f # pre). severity g < severity v)
        \<and> (\<forall>g \<in> set post. severity g \<le> severity v)"
      using Cons by auto
    then show ?thesis by blast
  qed
qed

lemma deduplicate_keys:
  "map tx_id_of (deduplicate_frauds frauds) = map fst (dedup_loop frauds [])"
proof -
  have "\<forall>(k, v) \<in> set (dedup_loop frauds []). tx_id_of v = k"
    by (rule dedup_loop_key_of) simp
  then show ?thesis
    by (auto simp: deduplicate_frauds_def)
qed

lemma run_checks_order:
  assumes "run_checks df = Inr frauds"
  shows "\<exists>p u s r. check_prohibited_items df = Inr p \<and> check_unauthorized_amounts df = Inr u
           \<and> check_smurfing df = Inr s \<and> check_restricted_locations df = Inr r
           \<and> frauds = p @ u @ s @ r @ check_suspicious_categories df"
  using assms by (auto simp: run_checks_def split: sum.splits)

lemma dedup_loop_values:
  "snd ` set (dedup_loop fs d) \<subseteq> snd ` set d \<union> set fs"
proof (induction fs arbitrary: d)
  case Nil
  then show ?case by simp
next
  case (Cons f fs)
  have y: "snd ` set (dict_set (tx_id_of f) f d) \<subseteq> insert f (snd ` set d)"
    using set_dict_set [of "tx_id_of f" f d] by auto
  have a: "snd ` set (dedup_loop fs (dict_set (tx_id_of f) f d))
      \<subseteq> snd ` set d \<union> set (f # fs)"
  proof -
    have "snd ` set (dedup_loop fs (dict_set (tx_id_of f) f d))
        \<subseteq> snd ` set (dict_set (tx_id_of f) f d) \<union> set fs"
      by (rule Cons.IH)
    moreover have "snd ` set (dict_set (tx_id_of f) f d) \<union> set fs
        \<subseteq> snd ` set d \<union> set (f # fs)"
      using y by auto
    ultimately show ?thesis by (rule subset_trans)
  qed
  have b: "snd ` set (dedup_loop fs d) \<subseteq> snd ` set d \<union> set (f # fs)"
  proof -
    have "snd ` set (dedup_loop fs d) \<subseteq> snd ` set d \<union> set fs"
      by (rule Cons.IH)
    moreover have "snd ` set d \<union> set fs \<subseteq> snd ` set d \<union> set (f # fs)"
      by auto
    ultimately show ?thesis by (rule subset_trans)
  qed
  show ?case
  proof (cases "map_of d (tx_id_of f)")
    case None
    with a show ?thesis by (simp only: dedup_loop.simps Let_def option.case)
  next
    case (Some kept)
    with a b show ?thesis
      by (simp only: dedup_loop.simps Let_def option.case split: if_split) blast
  qed
qed

lemma deduplicate_subset: "set (deduplicate_frauds frauds) \<subseteq> set frauds"
  using dedup_loop_values [of frauds "[]"] by (auto simp: deduplicate_frauds_def)

text \<open>
  When two keys group a list in the same way, what holds of the groups of one holds of
  the groups of the other.
\<close>

lemma same_grouping_transfer:
  assumes same: "\<forall>v \<in> set fs. \<forall>w \<in> set fs. (k1 v = k1 w) = (k2 v = k2 w)"
    and sub: "set out \<subseteq> set fs"
    and d: "distinct (map k1 out)"
    and s: "set (map k1 out) = set (map k1 fs)"
  shows "distinct (map k2 out)" and "set (map k2 out) = set (map k2 fs)"
    and "\<forall>v \<in> set out. filter (\<lambda>f. k2 f = k2 v) fs = filter (\<lambda>f. k1 f = k1 v) fs"
proof -
  from d have "distinct out" "inj_on k1 (set out)"
    by (simp_all add: distinct_map)
  moreover have "inj_on k2 (set out)"
  proof (rule inj_onI)
    fix v w assume vw: "v \<in> set out" "w \<in> set out" "k2 v = k2 w"
    with same sub have "k1 v = k1 w" by blast
    with \<open>inj_on k1 (set out)\<close> vw show "v = w" by (auto dest: inj_onD)
  qed
  ultimately show "distinct (map k2 out)"
    by (simp add: distinct_map)
  show "set (map k2 out) = set (map k2 fs)"
  proof
    show "set (map k2 out) \<subseteq> set (map k2 fs)"
      using sub by auto
    show "set (map k2 fs) \<subseteq> set (map k2 out)"
    proof
      fix x assume "x \<in> set (map k2 fs)"
      then obtain w where w: "w \<in> set fs" "x = k2 w" by auto
      then have "k1 w \<in> set (map k1 out)" using s by auto
      then obtain v where v: "v \<in> set out" "k1 v = k1 w" by auto
      with same sub w(1) have "k2 v = k2 w" by blast
      moreover from v(1) have "k2 v \<in> k2 ` set out" by (rule imageI)
      ultimately show "x \<in> set (map k2 out)" using w(2) by simp
    qed
  qed
  show "\<forall>v \<in> set out. filter (\<lambda>f. k2 f = k2 v) fs = filter (\<lambda>f. k1 f = k1 v) fs"
  proof
    fix v assume "v \<in> set out"
    with sub have "v \<in> set fs" by auto
    with same show "filter (\<lambda>f. k2 f = k2 v) fs = filter (\<lambda>f. k1 f = k1 v) fs"
      by (intro filter_cong) auto
  qed
qed

lemma same_grouping_single:
  assumes "\<forall>v \<in> set fs. \<exists>r. transaction v = Row_dict r"
  shows "\<forall>v \<in> set fs. \<forall>w \<in> set fs.
           (tx_id_of v = tx_id_of w) = (spec_identity_key v = spec_identity_key w)"
proof (intro ballI)
  fix v w assume "v \<in> set fs" "w \<in> set fs"
  with assms obtain r r' where "transaction v = Row_dict r" "transaction w = Row_dict r'"
    by blast
  then show "(tx_id_of v = tx_id_of w) = (spec_identity_key v = spec_identity_key w)"
    by (simp add: tx_id_of_def spec_identity_key_def)
qed

text \<open>
  C3. \<open>_deduplicate_frauds\<close> groups the violations by the key it computes for each
  (\<open>tx_id_of\<close>). Its output holds exactly one violation for every key of its input,
  and that violation is the first one of highest severity among the input violations
  with the key: each earlier violation with the key is strictly less severe and no later
  one is more severe, so a later violation of equal severity never replaces it. Whenever
  the identity key of the specification groups the input in the same way as the computed
  key (as it does when the input holds no smurfing violation), the same holds for
  the identity key of the specification. The input in \<open>analyze_transactions\<close> is the
  concatenation of the outputs of the five checks in the fixed order prohibited item,
  unauthorized amount, smurfing, restricted location, suspicious category, so among
  equally severe violations of a key the one of the earliest check is kept.
\<close>

theorem dedup_keeps_first_highest:
  "distinct (map tx_id_of (deduplicate_frauds frauds))
   \<and> set (map tx_id_of (deduplicate_frauds frauds)) = set (map tx_id_of frauds)
   \<and> (\<forall>v \<in> set (deduplicate_frauds frauds).
         \<exists>pre post. filter (\<lambda>f. tx_id_of f = tx_id_of v) frauds = pre @ v # post
           \<and> (\<forall>f \<in> set pre. severity f < severity v)
           \<and> (\<forall>f \<in> set post. severity f \<le> severity v))
   \<and> ((\<forall>v \<in> set frauds. \<forall>w \<in> set frauds.
          (tx_id_of v = tx_id_of w) = (spec_identity_key v = spec_identity_key w)) \<longrightarrow>
        distinct (map spec_identity_key (deduplicate_frauds frauds))
        \<and> set (map spec_identity_key (deduplicate_frauds frauds))
            = set (map spec_identity_key frauds)
        \<and> (\<forall>v \<in> set (deduplicate_frauds frauds).
              \<exists>pre post.
                filter (\<lambda>f. spec_identity_key f = spec_identity_key v) frauds = pre @ v # post
                \<and> (\<forall>f \<in> set pre. severity f < severity v)
                \<and> (\<forall>f \<in> set post. severity f \<le> severity v)))
   \<and> (\<forall>df fs. run_checks df = Inr fs \<longrightarrow>
         (\<exists>p u s r. check_prohibited_items df = Inr p \<and> check_unauthorized_amounts df = Inr u
            \<and> check_smurfing df = Inr s \<and> check_restricted_locations df = Inr r
            \<and> fs = p @ u @ s @ r @ check_suspicious_categories df))"
proof -
  let ?out = "deduplicate_frauds frauds"
  have d: "distinct (map fst (dedup_loop frauds []))"
    by (rule dedup_loop_keys_distinct) simp
  have k: "\<forall>(k, v) \<in> set (dedup_loop frauds []). tx_id_of v = k"
    by (rule dedup_loop_key_of) simp
  have 1: "distinct (map tx_id_of ?out)"
    using d by (simp add: deduplicate_keys)
  have 2: "set (map tx_id_of ?out) = set (map tx_id_of frauds)"
    using dedup_loop_keys_set [of frauds "[]"] by (simp add: deduplicate_keys)
  have 3: "\<exists>pre post. filter (\<lambda>f. tx_id_of f = tx_id_of v) frauds = pre @ v # post
           \<and> (\<forall>f \<in> set pre. severity f < severity v)
           \<and> (\<forall>f \<in> set post. severity f \<le> severity v)"
    if "v \<in> set ?out" for v
  proof -
    from that obtain key where kv: "(key, v) \<in> set (dedup_loop frauds [])"
      by (auto simp: deduplicate_frauds_def)
    with k have key: "key = tx_id_of v" by auto
    from kv d have "map_of (dedup_loop frauds []) key = Some v" by simp
    then have "keep_best None (filter (\<lambda>f. tx_id_of f = tx_id_of v) frauds) = Some v"
      by (simp add: dedup_loop_lookup key)
    then show ?thesis by (rule keep_best_None)
  qed
  have 4: "distinct (map spec_identity_key ?out)
        \<and> set (map spec_identity_key ?out) = set (map spec_identity_key frauds)
        \<and> (\<forall>v \<in> set ?out.
              \<exists>pre post.
                filter (\<lambda>f. spec_identity_key f = spec_identity_key v) frauds = pre @ v # post
                \<and> (\<forall>f \<in> set pre. severity f < severity v)
                \<and> (\<forall>f \<in> set post. severity f \<le> severity v))"
    if same: "\<forall>v \<in> set frauds. \<forall>w \<in> set frauds.
          (tx_id_of v = tx_id_of w) = (spec_identity_key v = spec_identity_key w)"
  proof -
    note t = same_grouping_transfer [OF same deduplicate_subset 1 2]
    from t(3) 3 have "\<forall>v \<in> set ?out.
              \<exists>pre post.
                filter (\<lambda>f. spec_identity_key f = spec_identity_key v) frauds = pre @ v # post
                \<and> (\<forall>f \<in> set pre. severity f < severity v)
                \<and> (\<forall>f \<in> set post. severity f \<le> severity v)"
      by simp
    with t(1,2) show ?thesis by (intro conjI)
  qed
  from 1 2 3 4 run_checks_order show ?thesis by blast
qed

text \<open>
  On the sample table the first row has a prohibited item (severity 9) and a suspicious
  category (severity 7): the former is kept. The third row has an unauthorized amount and
  a suspicious category, both of severity 7: the unauthorized amount, emitted first, is
  kept.
\<close>

theorem dedup_keeps_first_highest_witness:
  "run_checks sample_table =
     Inr [prohibited_violation tx_gun (ascii ''magic''), unauthorized_violation tx_laptop,
          suspicious_violation tx_gun, suspicious_violation tx_laptop]
   \<and> deduplicate_frauds
       [prohibited_violation tx_gun (ascii ''magic''), unauthorized_violation tx_laptop,
        suspicious_violation tx_gun, suspicious_violation tx_laptop] =
       [prohibited_violation tx_gun (ascii ''magic''), unauthorized_violation tx_laptop]
   \<and> (\<exists>pre post.
         filter (\<lambda>f. spec_identity_key f = spec_identity_key (unauthorized_violation tx_laptop))
           [prohibited_violation tx_gun (ascii ''magic''), unauthorized_violation tx_laptop,
            suspicious_violation tx_gun, suspicious_violation tx_laptop]
           = pre @ unauthorized_violation tx_laptop # post
         \<and> (\<forall>f \<in> set pre. severity f < severity (unauthorized_violation tx_laptop))
         \<and> (\<forall>f \<in> set post. severity f \<le> severity (unauthorized_violation tx_laptop)))
   \<and> severity (suspicious_violation tx_laptop) = severity (unauthorized_violation tx_laptop)"
proof -
  let ?fs = "[prohibited_violation tx_gun (ascii ''magic''), unauthorized_violation tx_laptop,
              suspicious_violation tx_gun, suspicious_violation tx_laptop]"
  have "\<forall>v \<in> set ?fs. \<exists>r. transaction v = Row_dict r"
    by (simp add: prohibited_violation_def unauthorized_violation_def suspicious_violation_def)
  then have same: "\<forall>v \<in> set ?fs. \<forall>w \<in> set ?fs.
      (tx_id_of v = tx_id_of w) = (spec_identity_key v = spec_identity_key w)"
    by (rule same_grouping_single)
  have "unauthorized_violation tx_laptop \<in> set (deduplicate_frauds ?fs)"
    by (simp add: sample_dedup)
  with dedup_keeps_first_highest [of ?fs] same
  have "\<exists>pre post.
         filter (\<lambda>f. spec_identity_key f = spec_identity_key (unauthorized_violation tx_laptop)) ?fs
           = pre @ unauthorized_violation tx_laptop # post
         \<and> (\<forall>f \<in> set pre. severity f < severity (unauthorized_violation tx_laptop))
         \<and> (\<forall>f \<in> set post. severity f \<le> severity (unauthorized_violation tx_laptop))"
    by blast
  moreover have "severity (suspicious_violation tx_laptop)
      = severity (unauthorized_violation tx_laptop)"
    by (simp add: suspicious_violation_def unauthorized_violation_def)
  ultimately show ?thesis
    using sample_run_checks sample_dedup by (intro conjI)
qed

section \<open>Smurfing: the loops as one loop over the examined pairs\<close>















section \<open>Smurfing: one pair, and the invariant of the loop\<close>

lemma identity_key_smurfing:
  "spec_identity_key (smurfing_violation func dt r1 r2 sim tot) =
     pair_key (id_transacao r1) (id_transacao r2)"
  by (simp add: spec_identity_key_def smurfing_violation_def)









lemma pair_key_commute: "pair_key a b = pair_key b a"
  by (auto simp: pair_key_def)







section \<open>Smurfing: the sample table\<close>

lemmas smurf_defs = smurf_table_def tx_ink1_def tx_ink2_def tx_ink3_def

lemma smurf_table_smurfing: "check_smurfing smurf_table = Inr [smurf_23, smurf_21, smurf_31]"
  by (simp add: check_smurfing_def smurf_defs sort_values_def sort_values_key_def unique_def
        employee_body_def day_body_def examine_pair_def pair_key_def desc_words_def
        py_split_def py_lower_def lower_char_def is_space_def jaccard_def ascii_def Let_def
        smurf_23_def smurf_21_def smurf_31_def smurfing_violation_def)

lemma smurf_ids:
  "id_transacao tx_ink1 = ascii ''S1''" "id_transacao tx_ink2 = ascii ''S2''"
  "id_transacao tx_ink3 = ascii ''S3''"
  by (simp_all add: smurf_defs)

lemma smurf_table_run_checks:
  "run_checks smurf_table = Inr [smurf_23, smurf_21, smurf_31]"
proof -
  have "check_prohibited_items smurf_table = Inr []"
    by (simp add: check_prohibited_items_def smurf_defs prohibited_keywords_def
          ascii_def py_lower_def lower_char_def)
  moreover have "check_unauthorized_amounts smurf_table = Inr []"
    by (simp add: check_unauthorized_amounts_def smurf_defs high_value_threshold_def)
  moreover have "check_restricted_locations smurf_table = Inr []"
    by (simp add: check_restricted_locations_def smurf_defs restricted_locations_def
          ascii_def py_lower_def lower_char_def)
  moreover have "check_suspicious_categories smurf_table = []"
    by (simp add: check_suspicious_categories_def smurf_defs)
  ultimately show ?thesis
    by (simp add: run_checks_def smurf_table_smurfing)
qed

lemma smurf_table_dedup:
  "deduplicate_frauds [smurf_23, smurf_21, smurf_31] = [smurf_23, smurf_31]"
  by (simp add: deduplicate_frauds_def Let_def smurf_23_def smurf_21_def smurf_31_def
        tx_id_of_simps severity_simps smurf_ids ascii_def)

lemma smurf_keys:
  "spec_identity_key smurf_23 = [ascii ''S2'', ascii ''S3'']"
  "spec_identity_key smurf_21 = [ascii ''S1'', ascii ''S2'']"
  "spec_identity_key smurf_31 = [ascii ''S1'', ascii ''S3'']"
  by (simp_all add: smurf_23_def smurf_21_def smurf_31_def identity_key_smurfing smurf_ids
        pair_key_def ascii_def)

section \<open>Smurfing: what is reported\<close>





text \<open>
  C1. The deduplicator keys a smurfing violation by its first id alone
  (\<open>tx_id_of\<close>), not by the sorted pair of its two ids. The three sample rows pairwise
  satisfy the smurfing condition, and the checks emit three violations with three
  different sorted pairs. Two of them share their first id; the deduplicator keeps one of
  the two, and the identity key of the other (the sorted pair of the specification) has
  no violation left in the output. The sorted pair that \<open>_check_smurfing\<close> uses for its
  own duplicate suppression is symmetric; the deduplicator's key is not: exchanging the
  two rows of a pair changes it.
\<close>

theorem dedup_drops_smurfing_pair_sharing_first_id:
  "run_checks smurf_table = Inr [smurf_23, smurf_21, smurf_31]
   \<and> deduplicate_frauds [smurf_23, smurf_21, smurf_31] = [smurf_23, smurf_31]
   \<and> spec_identity_key smurf_21 \<notin> set (map spec_identity_key [smurf_23, smurf_31])
   \<and> tx_id_of smurf_21 = tx_id_of smurf_23
   \<and> pair_key (ascii ''S1'') (ascii ''S2'') = pair_key (ascii ''S2'') (ascii ''S1'')
   \<and> tx_id_of (smurfing_violation (ascii ''Ryan'') 3 tx_ink1 tx_ink2 1 750) \<noteq> tx_id_of smurf_21"
  by (simp add: smurf_table_run_checks smurf_table_dedup smurf_keys pair_key_commute)
     (simp add: smurf_23_def smurf_21_def tx_id_of_simps smurf_ids ascii_def)

section \<open>Properties of the loader\<close>

lemmas csv_defs = csv_full_def csv_no_descricao_column_def csv_empty_descricao_def
  raw_ok_def raw_bad_valor_def raw_bad_data_def raw_no_descricao_def
  tx_pam_def tx_pam_nan_def
  sample_to_numeric_def sample_to_datetime_def digits_value_def required_columns_def

lemma dropna_filter:
  "dropna (map (\<lambda>r. (r, n r, d r)) rs) =
     map (\<lambda>r. \<lparr>id_transacao = raw_id_transacao r, funcionario = raw_funcionario r,
                data = the (d r), valor = the (n r),
                descricao = raw_descricao r, categoria = raw_categoria r\<rparr>)
       (filter (\<lambda>r. n r \<noteq> None \<and> d r \<noteq> None) rs)"
  unfolding dropna_def
proof (induction rs)
  case Nil
  then show ?case by (simp add: map_filter_simps)
next
  case (Cons r rs)
  then show ?case
    by (cases "n r"; cases "d r") (simp_all add: map_filter_simps)
qed

lemma missing_columns_set:
  "set (filter (\<lambda>col. col \<notin> set cs) required_columns) = set required_columns - set cs"
  by auto

text \<open>
  C6. For a file that exists: if a required column is absent, \<open>load_transactions\<close>
  raises \<open>ValueError\<close> with the list of the missing required columns, and so does
  \<open>analyze_transactions\<close>, which runs no check. Otherwise it returns the table whose
  rows are, in input order and with repetitions kept, exactly the input rows whose amount
  and date both convert; each row carries the converted amount and date (never a
  substitute value) and its other cells unchanged.
\<close>

theorem load_transactions_contract:
  "(\<not> set required_columns \<subseteq> set (columns tbl) \<longrightarrow>
      (\<exists>missing. missing \<noteq> [] \<and> set missing = set required_columns - set (columns tbl)
         \<and> load_transactions to_numeric to_datetime (Some tbl) = Inl (ValueError missing)
         \<and> analyze_transactions to_numeric to_datetime (Some tbl) = Inl (ValueError missing)))
   \<and> (set required_columns \<subseteq> set (columns tbl) \<longrightarrow>
      (\<exists>df. load_transactions to_numeric to_datetime (Some tbl) = Inr df
         \<and> rows df =
             map (\<lambda>r. \<lparr>id_transacao = raw_id_transacao r, funcionario = raw_funcionario r,
                        data = the (to_datetime (map raw_data (raw_rows tbl)) (raw_data r)),
                        valor = the (to_numeric (raw_valor r)),
                        descricao = raw_descricao r, categoria = raw_categoria r\<rparr>)
               (filter (\<lambda>r. to_numeric (raw_valor r) \<noteq> None
                            \<and> to_datetime (map raw_data (raw_rows tbl)) (raw_data r) \<noteq> None)
                  (raw_rows tbl))))"
proof (intro conjI impI)
  let ?missing = "filter (\<lambda>col. col \<notin> set (columns tbl)) required_columns"
  assume "\<not> set required_columns \<subseteq> set (columns tbl)"
  then have ne: "?missing \<noteq> []"
    by (auto simp: filter_empty_conv)
  then have "load_transactions to_numeric to_datetime (Some tbl) = Inl (ValueError ?missing)"
    by (simp add: load_transactions_def Let_def)
  moreover from this
  have "analyze_transactions to_numeric to_datetime (Some tbl) = Inl (ValueError ?missing)"
    by (simp add: analyze_transactions_def)
  ultimately show "\<exists>missing. missing \<noteq> []
      \<and> set missing = set required_columns - set (columns tbl)
      \<and> load_transactions to_numeric to_datetime (Some tbl) = Inl (ValueError missing)
      \<and> analyze_transactions to_numeric to_datetime (Some tbl) = Inl (ValueError missing)"
    using ne missing_columns_set by blast
next
  assume "set required_columns \<subseteq> set (columns tbl)"
  then have "filter (\<lambda>col. col \<notin> set (columns tbl)) required_columns = []"
    by (auto simp: filter_empty_conv)
  then show "\<exists>df. load_transactions to_numeric to_datetime (Some tbl) = Inr df
         \<and> rows df =
             map (\<lambda>r. \<lparr>id_transacao = raw_id_transacao r, funcionario = raw_funcionario r,
                        data = the (to_datetime (map raw_data (raw_rows tbl)) (raw_data r)),
                        valor = the (to_numeric (raw_valor r)),
                        descricao = raw_descricao r, categoria = raw_categoria r\<rparr>)
               (filter (\<lambda>r. to_numeric (raw_valor r) \<noteq> None
                            \<and> to_datetime (map raw_data (raw_rows tbl)) (raw_data r) \<noteq> None)
                  (raw_rows tbl))"
    by (simp add: load_transactions_def Let_def
          dropna_filter [of "\<lambda>r. to_numeric (raw_valor r)"
             "\<lambda>r. to_datetime (map raw_data (raw_rows tbl)) (raw_data r)"])
qed

text \<open>
  A table without the column \<open>descricao\<close> is refused, by the loader and by the
  analysis. Of the four rows of the full table the second has an amount and the third a
  date that does not convert; the first and the fourth, which are equal, are returned.
\<close>

theorem load_transactions_contract_witness:
  "load_transactions sample_to_numeric sample_to_datetime (Some csv_no_descricao_column)
     = Inl (ValueError [ascii ''descricao''])
   \<and> analyze_transactions sample_to_numeric sample_to_datetime (Some csv_no_descricao_column)
     = Inl (ValueError [ascii ''descricao''])
   \<and> (\<exists>df. load_transactions sample_to_numeric sample_to_datetime (Some csv_full) = Inr df
         \<and> rows df = [tx_pam, tx_pam])"
proof -
  have a: "\<not> set required_columns \<subseteq> set (columns csv_no_descricao_column)"
    by (simp add: csv_defs ascii_def)
  have b: "set required_columns \<subseteq> set (columns csv_full)"
    by (simp add: csv_defs)
  from load_transactions_contract [of csv_no_descricao_column sample_to_numeric sample_to_datetime] a
  obtain missing where m: "missing \<noteq> []"
    "set missing = set required_columns - set (columns csv_no_descricao_column)"
    "load_transactions sample_to_numeric sample_to_datetime (Some csv_no_descricao_column)
       = Inl (ValueError missing)"
    "analyze_transactions sample_to_numeric sample_to_datetime (Some csv_no_descricao_column)
       = Inl (ValueError missing)"
    by blast
  have "load_transactions sample_to_numeric sample_to_datetime (Some csv_no_descricao_column)
       = Inl (ValueError [ascii ''descricao''])"
    by (simp add: load_transactions_def csv_defs ascii_def)
  with m(3) have "missing = [ascii ''descricao'']" by simp
  with m have 1: "load_transactions sample_to_numeric sample_to_datetime
       (Some csv_no_descricao_column) = Inl (ValueError [ascii ''descricao''])"
    "analyze_transactions sample_to_numeric sample_to_datetime (Some csv_no_descricao_column)
       = Inl (ValueError [ascii ''descricao''])"
    by simp_all
  from load_transactions_contract [of csv_full sample_to_numeric sample_to_datetime] b
  obtain df where df: "load_transactions sample_to_numeric sample_to_datetime (Some csv_full)
      = Inr df"
    "rows df =
       map (\<lambda>r. \<lparr>id_transacao = raw_id_transacao r, funcionario = raw_funcionario r,
                  data = the (sample_to_datetime (map raw_data (raw_rows csv_full)) (raw_data r)),
                  valor = the (sample_to_numeric (raw_valor r)),
                  descricao = raw_descricao r, categoria = raw_categoria r\<rparr>)
         (filter (\<lambda>r. sample_to_numeric (raw_valor r) \<noteq> None
                      \<and> sample_to_datetime (map raw_data (raw_rows csv_full)) (raw_data r) \<noteq> None)
            (raw_rows csv_full))"
    by blast
  from df(2) have "rows df = [tx_pam, tx_pam]"
    by (simp add: csv_defs ascii_def)
  with df(1) 1 show ?thesis by blast
qed

section \<open>A missing description\<close>

lemma prohibited_loop_raises:
  "\<exists>r \<in> set rs. descricao r = NaN \<Longrightarrow> prohibited_loop rs vs = Inl AttributeError"
proof (induction rs arbitrary: vs)
  case Nil
  then show ?case by simp
next
  case (Cons r rs)
  then show ?case
    by (cases "descricao r") (auto split: option.splits)
qed

lemma missing_description_raises:
  assumes "\<exists>r \<in> set (rows df). descricao r = NaN"
  shows "check_prohibited_items df = Inl AttributeError" "run_checks df = Inl AttributeError"
  using prohibited_loop_raises [OF assms]
  by (simp_all add: check_prohibited_items_def run_checks_def)

text \<open>
  C9. The loader keeps a row whose description cell is empty, since it only looks at the
  amount and the date. On the table it returns, \<open>_check_prohibited_items\<close> calls
  \<open>.lower()\<close> on the missing cell and raises \<open>AttributeError\<close>, which ends
  \<open>analyze_transactions\<close>: the checks do not all return normally on every table the
  loader returns.
\<close>

theorem missing_description_aborts_analysis:
  "load_transactions sample_to_numeric sample_to_datetime (Some csv_empty_descricao)
     = Inr \<lparr>has_categoria = False, rows = [tx_pam, tx_pam_nan]\<rparr>
   \<and> check_prohibited_items \<lparr>has_categoria = False, rows = [tx_pam, tx_pam_nan]\<rparr>
     = Inl AttributeError
   \<and> analyze_transactions sample_to_numeric sample_to_datetime (Some csv_empty_descricao)
     = Inl AttributeError"
proof -
  have l: "load_transactions sample_to_numeric sample_to_datetime (Some csv_empty_descricao)
     = Inr \<lparr>has_categoria = False, rows = [tx_pam, tx_pam_nan]\<rparr>"
    by (simp add: load_transactions_def dropna_def map_filter_simps csv_defs ascii_def)
  have n: "\<exists>r \<in> set (rows \<lparr>has_categoria = False, rows = [tx_pam, tx_pam_nan]\<rparr>).
             descricao r = NaN"
    by (simp add: tx_pam_nan_def)
  from l missing_description_raises [OF n] show ?thesis
    by (simp add: analyze_transactions_def)
qed

section \<open>A malformed reply of the service\<close>

lemma analyze_email_single_call:
  assumes "build_prompt em df = Inr p"
  shows "snd (analyze_email_for_fraud_coordination build_prompt llm json_loads em df calls)
           = calls + 1"
  using assms
  by (simp add: analyze_email_for_fraud_coordination_def split: reply.split option.split)

lemma analyze_email_malformed:
  assumes "build_prompt em df = Inr p" "llm calls p = Text response"
    "json_loads (clean_response response) = None"
  shows "analyze_email_for_fraud_coordination build_prompt llm json_loads em df calls
           = (Inr None, calls + 1)"
  using assms by (simp add: analyze_email_for_fraud_coordination_def)

lemma coordinated_body_malformed:
  assumes "build_prompt em df = Inr p" "llm (snd st) p = Text response"
    "json_loads (clean_response response) = None"
  shows "coordinated_body build_prompt llm json_loads df em st = (fst st, snd st + 1)"
  using assms
  by (simp add: coordinated_body_def analyze_email_for_fraud_coordination_def Let_def)

lemma clean_plain: "clean_response (ascii ''Sure:'') = ascii ''Sure:''"
  by (simp add: clean_response_def py_strip_def is_space_def fence_def ascii_def)

lemma clean_json: "clean_response fraud_json_text = fraud_json_text"
  by (simp add: clean_response_def py_strip_def is_space_def fence_def fraud_json_text_def
        ascii_def)

lemma clean_strict_json:
  "clean_response_strict (ascii ''Sure:'') = ascii ''Sure:''"
  "clean_response_strict suspicious_json_text = suspicious_json_text"
  by (simp_all add: clean_response_strict_def py_strip_def is_space_def fence_def
        suspicious_json_text_def ascii_def)

lemma sample_email_suspicious:
  "list_ex (\<lambda>keyword. py_in keyword (py_lower (mensagem sample_email))) suspicious_keywords"
  by (simp add: sample_email_def suspicious_keywords_def ascii_def py_lower_def lower_char_def)

text \<open>
  C8. The contextual agent calls the service once per email. When the first reply is
  not JSON, the email is not flagged and one call has been made, although the reply to a
  second call would have been a well-formed judgment that flags the email. The parse
  failure does not propagate: the run returns its (empty) list. The conspiracy agent, on
  a service that behaves in the same way, makes the second call and returns the
  judgment.
\<close>

theorem malformed_reply_is_not_retried:
  "detect_coordinated_fraud sample_prompt (flaky_llm fraud_json_text) sample_json_loads
     [sample_email] sample_table 0 = ([], 1)
   \<and> fst (detect_coordinated_fraud sample_prompt (flaky_llm fraud_json_text) sample_json_loads
            [sample_email] sample_table 1) \<noteq> []
   \<and> analyze_single_email (\<lambda>em. ()) (flaky_llm suspicious_json_text) sample_json_loads
       sample_email 0
       = (JObj [(ascii ''is_suspicious'', JBool True), (ascii ''severity'', JNum 8),
                (ascii ''reasoning'', JStr (ascii ''x''))], 2)"
proof -
  have p: "sample_prompt sample_email sample_table = Inr ()"
    by (simp add: sample_prompt_def)
  have ne: "ascii ''Sure:'' \<noteq> fraud_json_text" "ascii ''Sure:'' \<noteq> suspicious_json_text"
    "suspicious_json_text \<noteq> fraud_json_text"
    by (simp_all add: fraud_json_text_def suspicious_json_text_def ascii_def)
  have 1: "detect_coordinated_fraud sample_prompt (flaky_llm fraud_json_text) sample_json_loads
     [sample_email] sample_table 0 = ([], 1)"
    using ne
    by (simp add: detect_coordinated_fraud_def sample_email_suspicious coordinated_body_def
          analyze_email_for_fraud_coordination_def p flaky_llm_def sample_json_loads_def
          clean_plain Let_def)
  have 2: "fst (detect_coordinated_fraud sample_prompt (flaky_llm fraud_json_text)
      sample_json_loads [sample_email] sample_table 1) \<noteq> []"
    by (simp add: detect_coordinated_fraud_def sample_email_suspicious coordinated_body_def
          analyze_email_for_fraud_coordination_def p flaky_llm_def sample_json_loads_def
          clean_json dict_get_def Let_def)
  have 3: "analyze_single_email (\<lambda>em. ()) (flaky_llm suspicious_json_text) sample_json_loads
       sample_email 0
       = (JObj [(ascii ''is_suspicious'', JBool True), (ascii ''severity'', JNum 8),
                (ascii ''reasoning'', JStr (ascii ''x''))], 2)"
    using ne
    by (simp add: analyze_single_email_def max_retries_def upt_rec flaky_llm_def
          sample_json_loads_def clean_strict_json required_keys_def Let_def)
  from 1 2 3 show ?thesis by (intro conjI)
qed

end
